theory Spec2Isabelle
  imports Complex_Main "HOL-Library.Sublist"
begin

section \<open>Python strings\<close>

text \<open>
  A Python \<open>str\<close> is modelled as a \<open>string\<close>: a list of 8-bit characters, each read as the
  Unicode code point of the same number (U+0000 .. U+00FF). The three string methods the
  pipeline uses are written out on that range:
  \<^item> \<open>str.strip()\<close> removes leading and trailing characters for which \<open>str.isspace()\<close> holds;
  \<^item> \<open>str.lower()\<close> maps A-Z and the upper-case letters U+00C0 .. U+00DE (without U+00D7)
    to the character 32 places further (the bit of weight 32, clear on both ranges, is set);
  \<^item> \<open>str.upper()\<close> maps a-z and U+00E0 .. U+00FE (without U+00F7) to the character 32
    places before, U+00B5 to U+039C, U+00DF to the two characters \<open>SS\<close> and U+00FF to
    U+0178. Its result can leave the 8-bit range and can be longer than its argument, so it
    is given as a list of code points.
\<close>

definition is_space :: "char \<Rightarrow> bool" where
  "is_space c = (of_char c \<in> {9, 10, 11, 12, 13, 28, 29, 30, 31, 32, 133, 160 :: nat})"

definition strip :: "string \<Rightarrow> string" where
  "strip s = rev (dropWhile is_space (rev (dropWhile is_space s)))"



text \<open>Text that can leave the 8-bit range (what \<open>print\<close> receives): a list of code points.\<close>

type_synonym unicode = "nat list"

definition code_points :: "string \<Rightarrow> unicode" where
  "code_points s = map of_char s"

definition upper_code_points :: "char \<Rightarrow> unicode" where
  "upper_code_points c =
     (let n = of_char c :: nat in
      if (97 \<le> n \<and> n \<le> 122) \<or> (224 \<le> n \<and> n \<le> 254 \<and> n \<noteq> 247) then [n - 32]
      else if n = 181 then [924]
      else if n = 223 then [83, 83]
      else if n = 255 then [376]
      else [n])"

definition py_upper :: "string \<Rightarrow> unicode" where
  "py_upper s = concat (map upper_code_points s)"

section \<open>Errors\<close>

text \<open>
  What Python can raise. \<open>ValueError\<close> is the exception the source raises itself (it
  carries the message); \<open>EngineError\<close> stands for any other instance of \<open>Exception\<close>,
  raised by an external collaborator (audio device, Whisper, MBART, pyttsx3, gTTS, the
  console stream). \<open>KeyboardInterrupt\<close>, \<open>SystemExit\<close> and \<open>OtherBaseException\<close> are
  instances of \<open>BaseException\<close> that are not instances of \<open>Exception\<close>: a handler
  \<open>except Exception\<close> does not catch them.
\<close>

datatype error =
    ValueError string
  | EngineError string
  | KeyboardInterrupt
  | SystemExit
  | OtherBaseException string

fun is_Exception :: "error \<Rightarrow> bool" where
  "is_Exception (ValueError m) = True"
| "is_Exception (EngineError m) = True"
| "is_Exception KeyboardInterrupt = False"
| "is_Exception SystemExit = False"
| "is_Exception (OtherBaseException m) = False"

section \<open>translator.py: MBARTTranslator\<close>

definition LANG_CODE_MAP :: "string \<rightharpoonup> string" where
  "LANG_CODE_MAP = map_of
     [(''en'', ''en_XX''), (''hi'', ''hi_IN''), (''te'', ''te_IN''),
      (''ta'', ''ta_IN''), (''kn'', ''kn_IN'')]"

text \<open>
  The translation engine (tokenizer, \<open>model.generate\<close>, \<open>batch_decode\<close>) is an external
  collaborator: a parameter that receives the text and the two MBART locale codes and
  either raises or returns the decoded translation. \<open>translate\<close> has no handler, so
  whatever the engine raises leaves \<open>translate\<close>.
\<close>

type_synonym mt_engine = "string \<Rightarrow> string \<Rightarrow> string \<Rightarrow> error + string"

type_synonym cache_key = "string \<times> string \<times> string"

text \<open>
  The translator's mutable state: the \<open>cache\<close> dictionary, and a log of the engine
  invocations made so far (the call-count instrumentation of a stub engine).
\<close>

record translator_state =
  cache :: "cache_key \<rightharpoonup> string"
  engine_calls :: "(string \<times> string \<times> string) list"

definition translate ::
  "mt_engine \<Rightarrow> string \<Rightarrow> string \<Rightarrow> string \<Rightarrow> translator_state
     \<Rightarrow> (error + string) \<times> translator_state" where
  "translate eng text src_lang tgt_lang s =
     (let cache_key = (src_lang, tgt_lang, strip text) in
      case cache s cache_key of
        Some hit \<Rightarrow> (Inr hit, s)
      | None \<Rightarrow>
          (case LANG_CODE_MAP src_lang of
             None \<Rightarrow> (Inl (ValueError (''Unsupported source language: '' @ src_lang)), s)
           | Some src_code \<Rightarrow>
               (case LANG_CODE_MAP tgt_lang of
                  None \<Rightarrow> (Inl (ValueError (''Unsupported target language: '' @ tgt_lang)), s)
                | Some tgt_code \<Rightarrow>
                    (let s1 = s\<lparr>engine_calls := engine_calls s @ [(text, src_code, tgt_code)]\<rparr>
                     in case eng text src_code tgt_code of
                          Inl e \<Rightarrow> (Inl e, s1)
                        | Inr translation \<Rightarrow>
                            (Inr translation,
                             s1\<lparr>cache := (cache s1)(cache_key \<mapsto> translation)\<rparr>)))))"

definition clear_cache :: "translator_state \<Rightarrow> translator_state" where
  "clear_cache s = s\<lparr>cache := Map.empty\<rparr>"

definition get_cache_size :: "translator_state \<Rightarrow> nat" where
  "get_cache_size s = card (dom (cache s))"

definition validate_language :: "string \<Rightarrow> bool" where
  "validate_language lang_code = (lang_code \<in> dom LANG_CODE_MAP)"

text \<open>The state of a freshly constructed translator.\<close>

definition new_translator :: translator_state where
  "new_translator = \<lparr>cache = Map.empty, engine_calls = []\<rparr>"

section \<open>langchain_llm.py: TranslatorLLM\<close>





definition supported :: "string list" where
  "supported = [''en'', ''hi'', ''te'', ''ta'', ''kn'']"





section \<open>tts.py: TextToSpeech\<close>

definition GTTS_LANG_MAP :: "string \<rightharpoonup> string" where
  "GTTS_LANG_MAP = map_of
     [(''en'', ''en''), (''hi'', ''hi''), (''te'', ''te''), (''ta'', ''ta''), (''kn'', ''kn'')]"

text \<open>
  The fields of a \<open>TextToSpeech\<close> object: whether \<open>pyttsx3.init()\<close> succeeded (the engine
  is not \<open>None\<close>), and the flag given to the constructor.
\<close>

record tts_config =
  pyttsx3_engine :: bool
  use_gtts_fallback :: bool

text \<open>
  What a call of \<open>speak\<close> does to the outside world: it calls
  \<open>_speak_pyttsx3(text, save_path)\<close>, \<open>_speak_gtts(text, language, save_path)\<close> or
  \<open>print\<close> with a string. An event records the call, whether it returns or raises. The two
  backends and the console stream behind \<open>print\<close> are parameters that either raise or
  return.
\<close>

datatype tts_event =
    Pyttsx3_call string "string option"
  | Gtts_call string string "string option"
  | Console unicode

type_synonym pyttsx3_backend = "string \<Rightarrow> string option \<Rightarrow> error + unit"
type_synonym gtts_backend = "string \<Rightarrow> string \<Rightarrow> string option \<Rightarrow> error + unit"
type_synonym console_stream = "unicode \<Rightarrow> error + unit"

text \<open>The f-string \<^verbatim>\<open>f"\n[{language.upper()}] {text}\n"\<close>.\<close>

definition console_announcement :: "string \<Rightarrow> string \<Rightarrow> unicode" where
  "console_announcement language text =
     [10, 91] @ py_upper language @ [93, 32] @ code_points text @ [10]"

text \<open>
  \<open>speak\<close>, in three pieces, one for each stage of the chain. A stage that returns ends
  \<open>speak\<close>. An instance of \<open>Exception\<close> raised by a backend is caught by the handler
  \<open>except Exception\<close> of that stage and the next stage is tried; any other exception of a
  backend leaves \<open>speak\<close>. The \<open>print\<close> of the last stage is in no \<open>try\<close> block.
\<close>

definition speak_console ::
  "console_stream \<Rightarrow> string \<Rightarrow> string \<Rightarrow> tts_event list \<Rightarrow> (error + unit) \<times> tts_event list" where
  "speak_console pr language text ev =
     (let ev1 = ev @ [Console (console_announcement language text)]
      in case pr (console_announcement language text) of
           Inl e \<Rightarrow> (Inl e, ev1)
         | Inr _ \<Rightarrow> (Inr (), ev1))"

definition speak_fallback ::
  "gtts_backend \<Rightarrow> console_stream \<Rightarrow> tts_config \<Rightarrow> string \<Rightarrow> string \<Rightarrow> string option
     \<Rightarrow> tts_event list \<Rightarrow> (error + unit) \<times> tts_event list" where
  "speak_fallback gt pr tts text language save_path ev =
     (if use_gtts_fallback tts \<and> language \<in> dom GTTS_LANG_MAP
      then (let ev1 = ev @ [Gtts_call text language save_path]
            in case gt text language save_path of
                 Inr _ \<Rightarrow> (Inr (), ev1)
               | Inl e \<Rightarrow> if is_Exception e then speak_console pr language text ev1
                          else (Inl e, ev1))
      else speak_console pr language text ev)"

definition speak ::
  "pyttsx3_backend \<Rightarrow> gtts_backend \<Rightarrow> console_stream \<Rightarrow> tts_config \<Rightarrow> string \<Rightarrow> string
     \<Rightarrow> string option \<Rightarrow> tts_event list \<Rightarrow> (error + unit) \<times> tts_event list" where
  "speak py gt pr tts text language save_path ev =
     (if strip text = [] then (Inr (), ev)
      else if pyttsx3_engine tts \<and> language = ''en''
      then (let ev1 = ev @ [Pyttsx3_call text save_path]
            in case py text save_path of
                 Inr _ \<Rightarrow> (Inr (), ev1)
               | Inl e \<Rightarrow> if is_Exception e
                          then speak_fallback gt pr tts text language save_path ev1
                          else (Inl e, ev1))
      else speak_fallback gt pr tts text language save_path ev)"

section \<open>realtime.py: RealtimeTranslator\<close>

record config =
  src_lang :: string
  tgt_lang :: string
  chunk_seconds :: real
  sample_rate :: nat

definition RealtimeTranslator_init :: "string \<Rightarrow> string \<Rightarrow> real \<Rightarrow> nat \<Rightarrow> error + config" where
  "RealtimeTranslator_init src tgt secs rate =
     (if src \<noteq> ''auto'' \<and> src \<notin> set supported
      then Inl (ValueError (''Unsupported source language: '' @ src))
      else if tgt \<notin> set supported
      then Inl (ValueError (''Unsupported target language: '' @ tgt))
      else Inr \<lparr>src_lang = src, tgt_lang = tgt, chunk_seconds = secs, sample_rate = rate\<rparr>)"

text \<open>
  \<open>_has_speech\<close> is \<^verbatim>\<open>energy = np.sqrt(np.mean(audio ** 2)); return energy > threshold\<close>
  on the \<open>float32\<close> array that \<open>_record_audio\<close> returns. The arithmetic is numpy's: every
  operation rounds to \<open>float32\<close>, the order of the summation inside \<open>np.mean\<close> is numpy's
  own, and an empty array gives \<open>nan\<close>. It is not written out here: the four operations
  are parameters, on a type \<open>'a\<close> of arrays and a type \<open>'e\<close> of \<open>float32\<close> scalars, and
  what is proved of the gate holds for every arithmetic. The threshold is a Python float,
  a real number.
\<close>

record ('a, 'e) numpy_ops =
  np_square :: "'a \<Rightarrow> 'a"
  np_mean :: "'a \<Rightarrow> 'e"
  np_sqrt :: "'e \<Rightarrow> 'e"
  np_greater :: "'e \<Rightarrow> real \<Rightarrow> bool"




text \<open>
  The external stages of the orchestrator: the Transcriber (\<open>stt.transcribe\<close>, which
  returns the text and the detected language), the translation engine, the two synthesis
  backends, the console stream, and numpy.
\<close>

record ('a, 'e) env =
  stt :: "'a \<Rightarrow> string option \<Rightarrow> nat \<Rightarrow> error + (string \<times> string)"
  mt :: mt_engine
  pyttsx3 :: pyttsx3_backend
  gtts :: gtts_backend
  console :: console_stream
  np :: "('a, 'e) numpy_ops"









section \<open>Drivers and stubs\<close>

text \<open>A session of the translator: a sequence of \<open>translate(text, src_lang, tgt_lang)\<close> calls.\<close>

fun run_requests ::
  "mt_engine \<Rightarrow> (string \<times> string \<times> string) list \<Rightarrow> translator_state \<Rightarrow> translator_state" where
  "run_requests eng [] s = s"
| "run_requests eng ((text, src, tgt) # rs) s =
     run_requests eng rs (snd (translate eng text src tgt s))"

text \<open>Stub collaborators, as a test suite would write them.\<close>

definition stub_engine :: mt_engine where
  "stub_engine text src_code tgt_code = Inr (tgt_code @ '': '' @ text)"

definition failing_pyttsx3 :: pyttsx3_backend where
  "failing_pyttsx3 text save_path = Inl (EngineError ''pyttsx3 failed'')"

definition interrupted_pyttsx3 :: pyttsx3_backend where
  "interrupted_pyttsx3 text save_path = Inl KeyboardInterrupt"

definition failing_gtts :: gtts_backend where
  "failing_gtts text language save_path = Inl (EngineError ''gTTS failed'')"

definition stub_console :: console_stream where
  "stub_console s = Inr ()"

text \<open>A console whose encoding has no letter \<open>l\<close> (code point 108).\<close>

definition narrow_console :: console_stream where
  "narrow_console s = (if 108 \<in> set s then Inl (EngineError ''UnicodeEncodeError'') else Inr ())"





definition stub_tts :: tts_config where
  "stub_tts = \<lparr>pyttsx3_engine = True, use_gtts_fallback = True\<rparr>"


section \<open>The supported languages\<close>

lemma dom_LANG_CODE_MAP: "dom LANG_CODE_MAP = {''en'', ''hi'', ''te'', ''ta'', ''kn''}"
  by (auto simp: LANG_CODE_MAP_def dom_def split: if_splits)

lemma set_supported: "set supported = {''en'', ''hi'', ''te'', ''ta'', ''kn''}"
  by (auto simp: supported_def)

section \<open>Facts about the translator\<close>

lemma strip_Hello: "strip '' Hello '' = ''Hello''" "strip ''Hello'' = ''Hello''" "strip ''hello'' = ''hello''"
  by (simp_all add: strip_def is_space_def)

lemma translate_hit:
  "cache s (src, tgt, strip text) = Some v \<Longrightarrow> translate eng text src tgt s = (Inr v, s)"
  by (simp add: translate_def)

lemma translate_miss_ok:
  assumes "cache s (src, tgt, strip text) = None"
    and "LANG_CODE_MAP src = Some sc" and "LANG_CODE_MAP tgt = Some tc"
    and "eng text sc tc = Inr out"
  shows "translate eng text src tgt s =
           (Inr out, s\<lparr>engine_calls := engine_calls s @ [(text, sc, tc)],
                       cache := (cache s)((src, tgt, strip text) \<mapsto> out)\<rparr>)"
  using assms by (simp add: translate_def)

lemma translate_miss_fail:
  assumes "cache s (src, tgt, strip text) = None"
    and "LANG_CODE_MAP src = Some sc" and "LANG_CODE_MAP tgt = Some tc"
    and "eng text sc tc = Inl e"
  shows "translate eng text src tgt s =
           (Inl e, s\<lparr>engine_calls := engine_calls s @ [(text, sc, tc)]\<rparr>)"
  using assms by (simp add: translate_def)

lemma translate_keeps_entries:
  "cache s k = Some v \<Longrightarrow> cache (snd (translate eng text src tgt s)) k = Some v"
  by (auto simp: translate_def Let_def split: option.splits sum.splits)

lemma run_requests_keeps_entries:
  "cache s k = Some v \<Longrightarrow> cache (run_requests eng rs s) k = Some v"
proof (induction rs arbitrary: s)
  case Nil
  then show ?case by simp
next
  case (Cons r rs)
  obtain t a b where r: "r = (t, a, b)" by (cases r)
  from Cons.prems have "cache (snd (translate eng t a b s)) k = Some v"
    by (rule translate_keeps_entries)
  then show ?case unfolding r by (simp add: Cons.IH)
qed

section \<open>Facts about \<open>strip\<close> and the prompt parser\<close>









section \<open>Facts about the wrapper, the synthesizer and the loop\<close>



lemma speak_console_eq:
  "speak_console pr language t ev =
     (pr (console_announcement language t), ev @ [Console (console_announcement language t)])"
  by (simp add: speak_console_def Let_def split: sum.splits)

lemma speak_fallback_raises:
  assumes "fst (speak_fallback gt pr tts t language save_path ev) = Inl e"
  shows "(\<not> is_Exception e \<and> gt t language save_path = Inl e)
         \<or> pr (console_announcement language t) = Inl e"
  using assms
  by (auto simp: speak_fallback_def speak_console_def Let_def split: if_splits sum.splits)

lemma speak_raises:
  assumes "fst (speak py gt pr tts t language save_path ev) = Inl e"
  shows "(\<not> is_Exception e \<and> (py t save_path = Inl e \<or> gt t language save_path = Inl e))
         \<or> pr (console_announcement language t) = Inl e"
  using assms speak_fallback_raises[of gt pr tts t language save_path _ e]
  by (auto simp: speak_def Let_def split: if_splits sum.splits)

lemma sublist_upper: "sublist (py_upper language) (console_announcement language t)"
  unfolding console_announcement_def by (metis append_assoc sublist_appendI)

lemma sublist_text: "sublist (code_points t) (console_announcement language t)"
  unfolding console_announcement_def by (metis append_assoc sublist_appendI)

lemma upper_sharp_s: "py_upper [CHR 0xDF] = [83, 83]" "py_upper [CHR 0xB5] = [924]" "py_upper [CHR 0xFF] = [376]"
  by (simp_all add: py_upper_def upper_code_points_def)













section \<open>Properties of the translator\<close>

text \<open>
  C3. When the cache key is absent and the source or the target code is outside
  \<open>{en, hi, te, ta, kn}\<close>, \<open>translate\<close> raises the error for an unsupported language (a
  \<open>ValueError\<close> in the source) whose message ends with the offending code, the source code
  being checked first. The translator's state is what it was: the engine has not been
  invoked, and the cache and its size are unchanged.
\<close>

theorem translate_unsupported_language:
  assumes miss: "cache s (src, tgt, strip text) = None"
    and bad: "src \<notin> {''en'', ''hi'', ''te'', ''ta'', ''kn''} \<or> tgt \<notin> {''en'', ''hi'', ''te'', ''ta'', ''kn''}"
  shows "translate eng text src tgt s =
           (Inl (ValueError (if src \<notin> {''en'', ''hi'', ''te'', ''ta'', ''kn''}
                             then ''Unsupported source language: '' @ src
                             else ''Unsupported target language: '' @ tgt)), s)
       \<and> engine_calls (snd (translate eng text src tgt s)) = engine_calls s
       \<and> cache (snd (translate eng text src tgt s)) = cache s
       \<and> get_cache_size (snd (translate eng text src tgt s)) = get_cache_size s"
proof -
  have "translate eng text src tgt s =
           (Inl (ValueError (if src \<notin> dom LANG_CODE_MAP
                             then ''Unsupported source language: '' @ src
                             else ''Unsupported target language: '' @ tgt)), s)"
    using miss bad unfolding dom_LANG_CODE_MAP[symmetric]
    by (auto simp: translate_def split: option.splits)
  then show ?thesis by (simp add: dom_LANG_CODE_MAP)
qed

theorem translate_unsupported_language_witness:
  "translate stub_engine ''Hello'' ''en'' ''de'' new_translator =
     (Inl (ValueError ''Unsupported target language: de''), new_translator)
   \<and> get_cache_size (snd (translate stub_engine ''Hello'' ''en'' ''de'' new_translator))
       = get_cache_size new_translator"
  using translate_unsupported_language [of new_translator "''en''" "''de''" "''Hello''" stub_engine]
  by (simp add: new_translator_def)

text \<open>
  C6. The cache is looked up before the language pair is validated: whenever the key
  \<open>(src, tgt, strip text)\<close> is in the cache, \<open>translate\<close> returns the cached string and
  leaves the state alone, whatever the two language codes are. The instance below has the
  unsupported code \<open>de\<close> under a key that was put into the cache beforehand.
\<close>

theorem translate_hit_skips_validation:
  assumes "cache s (src, tgt, strip text) = Some v"
  shows "translate eng text src tgt s = (Inr v, s)"
  using assms by (simp add: translate_def)

theorem translate_hit_skips_validation_witness:
  "''de'' \<notin> dom LANG_CODE_MAP \<and>
   translate stub_engine '' Hallo '' ''de'' ''en''
     \<lparr>cache = [(''de'', ''en'', ''Hallo'') \<mapsto> ''Hello''], engine_calls = []\<rparr>
   = (Inr ''Hello'', \<lparr>cache = [(''de'', ''en'', ''Hallo'') \<mapsto> ''Hello''], engine_calls = []\<rparr>)"
  using translate_hit_skips_validation
    [of "\<lparr>cache = [(''de'', ''en'', ''Hallo'') \<mapsto> ''Hello''], engine_calls = []\<rparr>"
        "''de''" "''en''" "'' Hallo ''" "''Hello''" stub_engine]
  by (simp add: strip_def is_space_def dom_LANG_CODE_MAP)

text \<open>
  C1. Cache idempotence. Take a supported language pair and a text whose key is not in the
  cache, and let the engine return \<open>out\<close> for it. The first call of \<open>translate\<close> invokes the
  engine once, stores \<open>out\<close> under \<open>(src, tgt, strip text)\<close> and returns it (state \<open>s1\<close>).
  The second call returns the same string and changes nothing, so the two calls together
  make exactly one engine invocation. Every later call with the same key, after any
  further \<open>translate\<close> calls \<open>rs\<close>, returns the stored string without touching the state.
\<close>

theorem translate_twice_one_engine_call:
  assumes sup: "LANG_CODE_MAP src = Some sc" "LANG_CODE_MAP tgt = Some tc"
    and miss: "cache s (src, tgt, strip text) = None"
    and ok: "eng text sc tc = Inr out"
    and s1: "s1 = s\<lparr>engine_calls := engine_calls s @ [(text, sc, tc)],
                     cache := (cache s)((src, tgt, strip text) \<mapsto> out)\<rparr>"
    and later: "s2 = run_requests eng rs s1"
    and same: "strip text' = strip text"
  shows "translate eng text src tgt s = (Inr out, s1)
       \<and> translate eng text src tgt s1 = (Inr out, s1)
       \<and> length (engine_calls (snd (translate eng text src tgt s1))) = length (engine_calls s) + 1
       \<and> translate eng text' src tgt s2 = (Inr out, s2)"
proof -
  have a: "translate eng text src tgt s = (Inr out, s1)"
    unfolding s1 using miss sup ok by (rule translate_miss_ok)
  have c1: "cache s1 (src, tgt, strip text) = Some out" by (simp add: s1)
  then have "cache s2 (src, tgt, strip text) = Some out"
    unfolding later by (rule run_requests_keeps_entries)
  then have c2: "cache s2 (src, tgt, strip text') = Some out" by (simp add: same)
  have b: "translate eng text src tgt s1 = (Inr out, s1)" using c1 by (rule translate_hit)
  have "length (engine_calls s1) = length (engine_calls s) + 1" by (simp add: s1)
  with a b translate_hit[OF c2] show ?thesis by simp
qed

theorem translate_twice_one_engine_call_witness:
  "translate stub_engine ''Hello'' ''en'' ''hi'' new_translator =
     (Inr ''hi_IN: Hello'',
      \<lparr>cache = [(''en'', ''hi'', ''Hello'') \<mapsto> ''hi_IN: Hello''],
       engine_calls = [(''Hello'', ''en_XX'', ''hi_IN'')]\<rparr>)
   \<and> translate stub_engine ''Hello'' ''en'' ''hi''
       \<lparr>cache = [(''en'', ''hi'', ''Hello'') \<mapsto> ''hi_IN: Hello''],
        engine_calls = [(''Hello'', ''en_XX'', ''hi_IN'')]\<rparr> =
     (Inr ''hi_IN: Hello'',
      \<lparr>cache = [(''en'', ''hi'', ''Hello'') \<mapsto> ''hi_IN: Hello''],
       engine_calls = [(''Hello'', ''en_XX'', ''hi_IN'')]\<rparr>)
   \<and> fst (translate stub_engine ''Hello  '' ''en'' ''hi''
       (run_requests stub_engine [(''Bye'', ''en'', ''hi''), (''Hello'', ''en'', ''ta'')]
         \<lparr>cache = [(''en'', ''hi'', ''Hello'') \<mapsto> ''hi_IN: Hello''],
          engine_calls = [(''Hello'', ''en_XX'', ''hi_IN'')]\<rparr>)) = Inr ''hi_IN: Hello''"
  using translate_twice_one_engine_call
    [of "''en''" "''en_XX''" "''hi''" "''hi_IN''" new_translator "''Hello''" stub_engine
        "''hi_IN: Hello''"
        "\<lparr>cache = [(''en'', ''hi'', ''Hello'') \<mapsto> ''hi_IN: Hello''],
          engine_calls = [(''Hello'', ''en_XX'', ''hi_IN'')]\<rparr>"
        "run_requests stub_engine [(''Bye'', ''en'', ''hi''), (''Hello'', ''en'', ''ta'')]
           \<lparr>cache = [(''en'', ''hi'', ''Hello'') \<mapsto> ''hi_IN: Hello''],
            engine_calls = [(''Hello'', ''en_XX'', ''hi_IN'')]\<rparr>"
        "[(''Bye'', ''en'', ''hi''), (''Hello'', ''en'', ''ta'')]" "''Hello  ''"]
  by (simp add: new_translator_def LANG_CODE_MAP_def stub_engine_def strip_def is_space_def)

text \<open>
  C9. The translator has no special case for an identity pair. For a supported language
  \<open>l\<close> and a text whose key is not cached, \<open>translate text l l\<close> raises nothing of its
  own: it invokes the engine once with the locale code of \<open>l\<close> on both sides, and its
  result is the engine's; a returned translation is stored under \<open>(l, l, strip text)\<close>.
\<close>

theorem translate_identity_pair:
  assumes sup: "LANG_CODE_MAP l = Some c"
    and miss: "cache s (l, l, strip text) = None"
  shows "translate eng text l l s =
           (case eng text c c of
              Inl e \<Rightarrow> (Inl e, s\<lparr>engine_calls := engine_calls s @ [(text, c, c)]\<rparr>)
            | Inr out \<Rightarrow>
                (Inr out, s\<lparr>engine_calls := engine_calls s @ [(text, c, c)],
                            cache := (cache s)((l, l, strip text) \<mapsto> out)\<rparr>))"
  using assms by (simp add: translate_def split: sum.splits)

theorem translate_identity_pair_witness:
  "translate stub_engine ''Hello'' ''en'' ''en'' new_translator =
     (Inr ''en_XX: Hello'',
      \<lparr>cache = [(''en'', ''en'', ''Hello'') \<mapsto> ''en_XX: Hello''],
       engine_calls = [(''Hello'', ''en_XX'', ''en_XX'')]\<rparr>)"
  using translate_identity_pair [of "''en''" "''en_XX''" new_translator "''Hello''" stub_engine]
  by (simp add: new_translator_def LANG_CODE_MAP_def stub_engine_def strip_def is_space_def)

text \<open>
  C4. Cache keys match exactly on the trimmed text and are case-sensitive. For every
  supported language pair, with neither key cached and a healthy engine: translating
  \<open>" Hello "\<close> is a miss that stores under the key of \<open>"Hello"\<close>; translating
  \<open>"Hello"\<close> afterwards is a hit (same string, state unchanged, no engine call);
  translating \<open>"hello"\<close> is a miss again, which invokes the engine and adds a second,
  distinct entry.
\<close>

theorem cache_key_trimmed_case_sensitive:
  assumes sup: "LANG_CODE_MAP src = Some sc" "LANG_CODE_MAP tgt = Some tc"
    and miss1: "cache s (src, tgt, ''Hello'') = None"
    and miss2: "cache s (src, tgt, ''hello'') = None"
    and ok1: "eng '' Hello '' sc tc = Inr out1"
    and ok2: "eng ''hello'' sc tc = Inr out2"
    and s1: "s1 = s\<lparr>engine_calls := engine_calls s @ [('' Hello '', sc, tc)],
                     cache := (cache s)((src, tgt, ''Hello'') \<mapsto> out1)\<rparr>"
    and s2: "s2 = s1\<lparr>engine_calls := engine_calls s1 @ [(''hello'', sc, tc)],
                      cache := (cache s1)((src, tgt, ''hello'') \<mapsto> out2)\<rparr>"
  shows "translate eng '' Hello '' src tgt s = (Inr out1, s1)
       \<and> translate eng ''Hello'' src tgt s1 = (Inr out1, s1)
       \<and> translate eng ''hello'' src tgt s1 = (Inr out2, s2)
       \<and> cache s2 (src, tgt, ''Hello'') = Some out1
       \<and> cache s2 (src, tgt, ''hello'') = Some out2
       \<and> dom (cache s2) = dom (cache s) \<union> {(src, tgt, ''Hello''), (src, tgt, ''hello'')}
       \<and> (src, tgt, ''Hello'') \<noteq> (src, tgt, ''hello'')"
proof -
  have a: "translate eng '' Hello '' src tgt s = (Inr out1, s1)"
    using translate_miss_ok[of s src tgt "'' Hello ''" sc tc eng out1] miss1 sup ok1
    by (simp add: strip_Hello s1)
  have "cache s1 (src, tgt, strip ''Hello'') = Some out1" by (simp add: s1 strip_Hello)
  then have b: "translate eng ''Hello'' src tgt s1 = (Inr out1, s1)" by (rule translate_hit)
  have "cache s1 (src, tgt, strip ''hello'') = None" using miss2 by (simp add: s1 strip_Hello)
  then have c: "translate eng ''hello'' src tgt s1 = (Inr out2, s2)"
    using translate_miss_ok[of s1 src tgt "''hello''" sc tc eng out2] sup ok2
    by (simp add: strip_Hello s2)
  have d: "dom (cache s2) = dom (cache s) \<union> {(src, tgt, ''Hello''), (src, tgt, ''hello'')}"
    by (auto simp: s1 s2)
  show ?thesis using a b c d by (simp add: s1 s2)
qed

theorem cache_key_trimmed_case_sensitive_witness:
  "translate stub_engine '' Hello '' ''en'' ''hi'' new_translator =
     (Inr ''hi_IN:  Hello '',
      \<lparr>cache = [(''en'', ''hi'', ''Hello'') \<mapsto> ''hi_IN:  Hello ''],
       engine_calls = [('' Hello '', ''en_XX'', ''hi_IN'')]\<rparr>)
   \<and> translate stub_engine ''Hello'' ''en'' ''hi''
       \<lparr>cache = [(''en'', ''hi'', ''Hello'') \<mapsto> ''hi_IN:  Hello ''],
        engine_calls = [('' Hello '', ''en_XX'', ''hi_IN'')]\<rparr> =
     (Inr ''hi_IN:  Hello '',
      \<lparr>cache = [(''en'', ''hi'', ''Hello'') \<mapsto> ''hi_IN:  Hello ''],
       engine_calls = [('' Hello '', ''en_XX'', ''hi_IN'')]\<rparr>)
   \<and> translate stub_engine ''hello'' ''en'' ''hi''
       \<lparr>cache = [(''en'', ''hi'', ''Hello'') \<mapsto> ''hi_IN:  Hello ''],
        engine_calls = [('' Hello '', ''en_XX'', ''hi_IN'')]\<rparr> =
     (Inr ''hi_IN: hello'',
      \<lparr>cache = [(''en'', ''hi'', ''Hello'') \<mapsto> ''hi_IN:  Hello '',
                (''en'', ''hi'', ''hello'') \<mapsto> ''hi_IN: hello''],
       engine_calls = [('' Hello '', ''en_XX'', ''hi_IN''), (''hello'', ''en_XX'', ''hi_IN'')]\<rparr>)"
  using cache_key_trimmed_case_sensitive
    [of "''en''" "''en_XX''" "''hi''" "''hi_IN''" new_translator stub_engine
        "''hi_IN:  Hello ''" "''hi_IN: hello''"
        "\<lparr>cache = [(''en'', ''hi'', ''Hello'') \<mapsto> ''hi_IN:  Hello ''],
          engine_calls = [('' Hello '', ''en_XX'', ''hi_IN'')]\<rparr>"
        "\<lparr>cache = [(''en'', ''hi'', ''Hello'') \<mapsto> ''hi_IN:  Hello '',
                   (''en'', ''hi'', ''hello'') \<mapsto> ''hi_IN: hello''],
          engine_calls = [('' Hello '', ''en_XX'', ''hi_IN''), (''hello'', ''en_XX'', ''hi_IN'')]\<rparr>"]
  by (simp add: new_translator_def LANG_CODE_MAP_def stub_engine_def)

section \<open>Properties of the synthesizer\<close>

text \<open>
  C7 (as amended). For every text and every language code, an error leaves \<open>speak\<close> only
  if it is raised by a backend and is not an instance of \<open>Exception\<close>, or if it is raised
  by the final \<open>print\<close>: no instance of \<open>Exception\<close> raised by a backend leaves it. For a
  text with at least one non-whitespace character, when the offline backend is unavailable,
  not applicable to the language or fails with an \<open>Exception\<close>, and the network backend is
  not permitted, does not support the language or fails with an \<open>Exception\<close>, \<open>speak\<close>
  calls \<open>print\<close> with the announcement \<open>"\n[LANGUAGE] text\n"\<close>, where \<open>LANGUAGE\<close> is
  \<open>language.upper()\<close>, and returns normally whenever that \<open>print\<close> returns.
\<close>

theorem speak_console_fallback:
  "(\<forall>e. fst (speak py gt pr tts text language save_path ev) = Inl e \<longrightarrow>
        (\<not> is_Exception e \<and> (py text save_path = Inl e \<or> gt text language save_path = Inl e))
        \<or> pr (console_announcement language text) = Inl e)
   \<and> (strip text \<noteq> []
        \<and> (pyttsx3_engine tts \<and> language = ''en''
              \<longrightarrow> (\<exists>e. py text save_path = Inl e \<and> is_Exception e))
        \<and> (use_gtts_fallback tts \<and> language \<in> dom GTTS_LANG_MAP
              \<longrightarrow> (\<exists>e. gt text language save_path = Inl e \<and> is_Exception e))
       \<longrightarrow>
         snd (speak py gt pr tts text language save_path ev) =
           ev @ (if pyttsx3_engine tts \<and> language = ''en''
                 then [Pyttsx3_call text save_path] else [])
              @ (if use_gtts_fallback tts \<and> language \<in> dom GTTS_LANG_MAP
                 then [Gtts_call text language save_path] else [])
              @ [Console (console_announcement language text)]
       \<and> fst (speak py gt pr tts text language save_path ev)
           = pr (console_announcement language text)
       \<and> console_announcement language text
           = [10, 91] @ py_upper language @ [93, 32] @ code_points text @ [10]
       \<and> sublist (py_upper language) (console_announcement language text)
       \<and> sublist (code_points text) (console_announcement language text))"
proof (intro conjI allI impI)
  fix e
  assume "fst (speak py gt pr tts text language save_path ev) = Inl e"
  then show "(\<not> is_Exception e \<and> (py text save_path = Inl e \<or> gt text language save_path = Inl e))
        \<or> pr (console_announcement language text) = Inl e"
    by (rule speak_raises)
next
  assume h: "strip text \<noteq> []
        \<and> (pyttsx3_engine tts \<and> language = ''en''
              \<longrightarrow> (\<exists>e. py text save_path = Inl e \<and> is_Exception e))
        \<and> (use_gtts_fallback tts \<and> language \<in> dom GTTS_LANG_MAP
              \<longrightarrow> (\<exists>e. gt text language save_path = Inl e \<and> is_Exception e))"
  then have nonblank: "strip text \<noteq> []"
    and primary: "pyttsx3_engine tts \<and> language = ''en''
                    \<Longrightarrow> \<exists>e. py text save_path = Inl e \<and> is_Exception e"
    and fallback: "use_gtts_fallback tts \<and> language \<in> dom GTTS_LANG_MAP
                    \<Longrightarrow> \<exists>e. gt text language save_path = Inl e \<and> is_Exception e"
    by blast+
  have fb: "speak_fallback gt pr tts text language save_path ev' =
              (pr (console_announcement language text),
               ev' @ (if use_gtts_fallback tts \<and> language \<in> dom GTTS_LANG_MAP
                      then [Gtts_call text language save_path] else [])
                   @ [Console (console_announcement language text)])" for ev'
  proof (cases "use_gtts_fallback tts \<and> language \<in> dom GTTS_LANG_MAP")
    case True
    then obtain e where e: "gt text language save_path = Inl e" "is_Exception e"
      using fallback by blast
    show ?thesis using True e
      by (simp add: speak_fallback_def Let_def speak_console_eq)
  next
    case False
    then show ?thesis by (auto simp add: speak_fallback_def speak_console_eq)
  qed
  have sp: "speak py gt pr tts text language save_path ev =
              (pr (console_announcement language text),
               ev @ (if pyttsx3_engine tts \<and> language = ''en''
                     then [Pyttsx3_call text save_path] else [])
                  @ (if use_gtts_fallback tts \<and> language \<in> dom GTTS_LANG_MAP
                     then [Gtts_call text language save_path] else [])
                  @ [Console (console_announcement language text)])"
  proof (cases "pyttsx3_engine tts \<and> language = ''en''")
    case True
    then obtain e where e: "py text save_path = Inl e" "is_Exception e"
      using primary by blast
    have "speak py gt pr tts text language save_path ev =
            speak_fallback gt pr tts text language save_path (ev @ [Pyttsx3_call text save_path])"
      using True e nonblank by (simp add: speak_def Let_def)
    then show ?thesis unfolding fb using True by simp
  next
    case False
    then show ?thesis using nonblank by (auto simp add: speak_def fb)
  qed
  show "snd (speak py gt pr tts text language save_path ev) =
           ev @ (if pyttsx3_engine tts \<and> language = ''en''
                 then [Pyttsx3_call text save_path] else [])
              @ (if use_gtts_fallback tts \<and> language \<in> dom GTTS_LANG_MAP
                 then [Gtts_call text language save_path] else [])
              @ [Console (console_announcement language text)]"
    by (simp add: sp)
  show "fst (speak py gt pr tts text language save_path ev)
           = pr (console_announcement language text)"
    by (simp add: sp)
  show "console_announcement language text
           = [10, 91] @ py_upper language @ [93, 32] @ code_points text @ [10]"
    by (simp add: console_announcement_def)
  show "sublist (py_upper language) (console_announcement language text)"
    by (rule sublist_upper)
  show "sublist (code_points text) (console_announcement language text)"
    by (rule sublist_text)
qed

text \<open>Both backends fail on \<open>Hello\<close> for the language \<open>en\<close>; the console accepts the text.\<close>

theorem speak_console_fallback_witness:
  "speak failing_pyttsx3 failing_gtts stub_console stub_tts ''Hello'' ''en'' None [] =
     (Inr (), [Pyttsx3_call ''Hello'' None, Gtts_call ''Hello'' ''en'' None,
               Console (code_points (CHR 0x0A # ''[EN] Hello'' @ [CHR 0x0A]))])"
  using speak_console_fallback [of failing_pyttsx3 failing_gtts stub_console stub_tts "''Hello''"
      "''en''" None "[]"]
  by (simp add: speak_def speak_fallback_def speak_console_def stub_tts_def failing_pyttsx3_def
      failing_gtts_def stub_console_def strip_def is_space_def GTTS_LANG_MAP_def
      console_announcement_def py_upper_def upper_code_points_def code_points_def)

text \<open>
  C7 as stated fails, in four ways. The text \<open>" "\<close> is not empty, and with both backends
  failing \<open>speak\<close> returns without printing anything. For the language code \<open>hi\<close> the
  announcement of the text \<open>x\<close> is \<open>"\n[HI] x\n"\<close>, which does not contain \<open>hi\<close>. When
  the console stream cannot encode the announcement, the \<open>print\<close> raises and so does
  \<open>speak\<close>. And a \<open>KeyboardInterrupt\<close> raised in a backend leaves \<open>speak\<close>.
\<close>

theorem speak_console_fallback_counterexample:
  "'' '' \<noteq> []
   \<and> speak failing_pyttsx3 failing_gtts stub_console stub_tts '' '' ''hi'' None [] = (Inr (), [])
   \<and> speak failing_pyttsx3 failing_gtts stub_console stub_tts ''x'' ''hi'' None [] =
       (Inr (), [Gtts_call ''x'' ''hi'' None,
                 Console (code_points (CHR 0x0A # ''[HI] x'' @ [CHR 0x0A]))])
   \<and> \<not> sublist (code_points ''hi'') (code_points (CHR 0x0A # ''[HI] x'' @ [CHR 0x0A]))
   \<and> speak failing_pyttsx3 failing_gtts narrow_console stub_tts ''l'' ''hi'' None [] =
       (Inl (EngineError ''UnicodeEncodeError''),
        [Gtts_call ''l'' ''hi'' None, Console (code_points (CHR 0x0A # ''[HI] l'' @ [CHR 0x0A]))])
   \<and> speak interrupted_pyttsx3 failing_gtts stub_console stub_tts ''x'' ''en'' None [] =
       (Inl KeyboardInterrupt, [Pyttsx3_call ''x'' None])"
  by (simp add: speak_def speak_fallback_def speak_console_def stub_tts_def failing_pyttsx3_def
      interrupted_pyttsx3_def narrow_console_def
      failing_gtts_def stub_console_def strip_def is_space_def GTTS_LANG_MAP_def
      console_announcement_def py_upper_def upper_code_points_def code_points_def
      sublist_Cons_right prefix_Cons)

text \<open>
  C10. For every language code and every text that is empty or consists of whitespace
  only, \<open>speak\<close> returns at once: no backend is invoked and nothing is printed (the event
  list is the one it was given).
\<close>

theorem speak_blank_text_returns_at_once:
  assumes "strip text = []"
  shows "speak py gt pr tts text language save_path ev = (Inr (), ev)"
  using assms by (simp add: speak_def)

theorem speak_blank_text_returns_at_once_witness:
  "strip [CHR '' '', CHR 0x09, CHR 0x0A] = []
   \<and> speak failing_pyttsx3 failing_gtts stub_console stub_tts [CHR '' '', CHR 0x09, CHR 0x0A] ''hi'' None [] = (Inr (), [])
   \<and> speak failing_pyttsx3 failing_gtts stub_console stub_tts [] ''hi'' None [] = (Inr (), [])"
  using speak_blank_text_returns_at_once [of "[CHR '' '', CHR 0x09, CHR 0x0A]" failing_pyttsx3
      failing_gtts stub_console stub_tts "''hi''" None "[]"]
  by (simp add: speak_def strip_def is_space_def)

section \<open>Properties of the orchestrator\<close>








end
